theory Spec2Isabelle
  imports Complex_Main
begin

text \<open>
  A model of the gateway of \<open>backend/app/main.py\<close> and of the request models of
  \<open>backend/app/models.py\<close>: the product handlers, which forward to the data service
  over HTTP, the user handlers, which work on the in-memory \<open>users_db\<close>, and the
  routes that FastAPI builds from the decorators. The data service is a function from
  calls to outcomes; a handler returns the calls it made and its result, an exception
  or a value.
\<close>

section \<open>Values exchanged with the outside world\<close>

text \<open>
  Python floats: the handlers only test a float for truthiness and paste it into a URL,
  so a float is its real value or one of the three special values. \<open>NaN\<close> and the
  infinities are truthy, like every float that is not zero.
\<close>

datatype pyfloat = Finite real | PosInf | NegInf | NaN

text \<open>
  A URL built by an f-string is kept as the list of its pieces, in order: the literal
  text and the formatted fields. \<open>f"{DATA_SERVICE_URL}/products/{product_id}"\<close> is
  \<open>[Lit DATA_SERVICE_URL, Lit ''/products/'', Fmt_int product_id]\<close>.
\<close>

datatype piece = Lit string | Fmt_int int | Fmt_float pyfloat

type_synonym fstring = "piece list"

text \<open>Python's \<open>str\<close> of an \<open>int\<close>, for the messages, which are plain strings.\<close>

definition digit_char :: "nat \<Rightarrow> char" where
  "digit_char d = char_of (48 + d)"

function str_nat :: "nat \<Rightarrow> string" where
  "str_nat n = (if n < 10 then [digit_char n] else str_nat (n div 10) @ [digit_char (n mod 10)])"
  by pat_completeness auto
termination
  by (relation "measure id") auto

declare str_nat.simps [simp del]

definition str_int :: "int \<Rightarrow> string" where
  "str_int i = (if i < 0 then CHR ''-'' # str_nat (nat (- i)) else str_nat (nat i))"

datatype json =
    JNull
  | JBool bool
  | JInt int
  | JFloat pyfloat
  | JStr string
  | JArr "json list"
  | JObj "(string \<times> json) list"

text \<open>
  The exceptions that occur in \<open>main.py\<close>: \<open>requests.RequestException\<close> (with its
  subclasses, among them \<open>HTTPError\<close>), FastAPI's \<open>HTTPException\<close> with status code,
  detail and headers, and any other \<open>Exception\<close>. A \<open>RequestException\<close> and an
  \<open>Exception\<close> carry their message.
\<close>

datatype py_exception =
    RequestException string
  | HTTPException int string "(string \<times> string) list"
  | Exception string

fun str_exception :: "py_exception \<Rightarrow> string" where
  "str_exception (RequestException m) = m"
| "str_exception (HTTPException s d h) = str_int s @ '': '' @ d"
| "str_exception (Exception m) = m"

datatype http_method = GET | POST | PUT | DELETE

text \<open>A call of \<open>requests.get/post/put/delete\<close>: method, URL and the \<open>json=\<close> body.\<close>

datatype request = Request http_method fstring "json option"

text \<open>
  What the handlers read of a \<open>requests.Response\<close>: the status code, the reason phrase
  and URL (they go into the message of \<open>raise_for_status\<close>), and what calling
  \<open>response.json()\<close> gives, a decoded value or an exception.
\<close>

record response =
  status_code :: int
  reason :: string
  url :: string
  json_result :: "py_exception + json"

text \<open>The upstream data service, seen from the gateway: each call returns a response or raises.\<close>

datatype outcome = Responded response | Raised py_exception

type_synonym upstream = "request \<Rightarrow> outcome"

text \<open>
  A handler that talks to the data service returns the list of the calls it made, in
  order, and its own result: \<open>Inl\<close> the exception it raises, \<open>Inr\<close> the value it
  returns.
\<close>

type_synonym 'a effect = "request list \<times> (py_exception + 'a)"

definition requests_call :: "upstream \<Rightarrow> request \<Rightarrow> response effect" where
  "requests_call up rq = ([rq], case up rq of Responded r \<Rightarrow> Inr r | Raised e \<Rightarrow> Inl e)"

definition requests_get :: "upstream \<Rightarrow> fstring \<Rightarrow> response effect" where
  "requests_get up u = requests_call up (Request GET u None)"

definition requests_post :: "upstream \<Rightarrow> fstring \<Rightarrow> json \<Rightarrow> response effect" where
  "requests_post up u body = requests_call up (Request POST u (Some body))"

definition requests_put :: "upstream \<Rightarrow> fstring \<Rightarrow> json \<Rightarrow> response effect" where
  "requests_put up u body = requests_call up (Request PUT u (Some body))"

definition requests_delete :: "upstream \<Rightarrow> fstring \<Rightarrow> response effect" where
  "requests_delete up u = requests_call up (Request DELETE u None)"

text \<open>
  \<open>Response.raise_for_status\<close> of the requests library: an \<open>HTTPError\<close>, which is a
  \<open>RequestException\<close>, for a status code from 400 to 599, and nothing otherwise.
\<close>

definition http_error_msg :: "response \<Rightarrow> string" where
  "http_error_msg r =
     (if 400 \<le> status_code r \<and> status_code r < 500 then
        str_int (status_code r) @ '' Client Error: '' @ reason r @ '' for url: '' @ url r
      else if 500 \<le> status_code r \<and> status_code r < 600 then
        str_int (status_code r) @ '' Server Error: '' @ reason r @ '' for url: '' @ url r
      else [])"

definition raise_for_status :: "response \<Rightarrow> py_exception + unit" where
  "raise_for_status r =
     (if 400 \<le> status_code r \<and> status_code r < 600
      then Inl (RequestException (http_error_msg r)) else Inr ())"

definition HTTP_503_SERVICE_UNAVAILABLE :: int where
  "HTTP_503_SERVICE_UNAVAILABLE = 503"

definition HTTP_404_NOT_FOUND :: int where
  "HTTP_404_NOT_FOUND = 404"

definition HTTP_400_BAD_REQUEST :: int where
  "HTTP_400_BAD_REQUEST = 400"

definition HTTP_401_UNAUTHORIZED :: int where
  "HTTP_401_UNAUTHORIZED = 401"

definition HTTP_201_CREATED :: int where
  "HTTP_201_CREATED = 201"

definition HTTP_204_NO_CONTENT :: int where
  "HTTP_204_NO_CONTENT = 204"

text \<open>
  \<open>except requests.RequestException as e: raise HTTPException(503, detail=f"Data service
  unavailable: {str(e)}")\<close>, the frame around every product handler. Any other exception
  of the body passes through.
\<close>

definition unavailable :: "string \<Rightarrow> py_exception" where
  "unavailable e =
     HTTPException HTTP_503_SERVICE_UNAVAILABLE (''Data service unavailable: '' @ e) []"

fun except_RequestException :: "py_exception + 'a \<Rightarrow> py_exception + 'a" where
  "except_RequestException (Inl (RequestException e)) = Inl (unavailable e)"
| "except_RequestException r = r"

text \<open>\<open>raise HTTPException(404, detail=f"Product with ID {product_id} not found")\<close>\<close>

definition not_found :: "int \<Rightarrow> py_exception" where
  "not_found product_id =
     HTTPException HTTP_404_NOT_FOUND
       (''Product with ID '' @ str_int product_id @ '' not found'') []"

section \<open>Request models (\<open>models.py\<close>)\<close>

record product_create =
  pc_name :: string
  pc_description :: string
  pc_price :: pyfloat
  pc_stock_quantity :: int
  pc_category :: string

definition ProductCreate_dict :: "product_create \<Rightarrow> (string \<times> json) list" where
  "ProductCreate_dict p =
     [(''name'', JStr (pc_name p)),
      (''description'', JStr (pc_description p)),
      (''price'', JFloat (pc_price p)),
      (''stock_quantity'', JInt (pc_stock_quantity p)),
      (''category'', JStr (pc_category p))]"

text \<open>
  Every field of \<open>ProductUpdate\<close> is optional with default \<open>None\<close>, and pydantic
  remembers which fields the request body set: a field is \<open>Unset\<close>, or \<open>Given v\<close> with
  \<open>v = None\<close> for an explicit null.
\<close>

datatype 'a field = Unset | Given "'a option"

record product_update =
  pu_name :: "string field"
  pu_description :: "string field"
  pu_price :: "pyfloat field"
  pu_stock_quantity :: "int field"
  pu_category :: "string field"

fun dict_entry :: "string \<Rightarrow> ('a \<Rightarrow> json) \<Rightarrow> 'a field \<Rightarrow> (string \<times> json) list" where
  "dict_entry k enc Unset = []"
| "dict_entry k enc (Given None) = [(k, JNull)]"
| "dict_entry k enc (Given (Some v)) = [(k, enc v)]"

text \<open>\<open>product.dict(exclude_unset=True)\<close>\<close>

definition ProductUpdate_dict_exclude_unset :: "product_update \<Rightarrow> (string \<times> json) list" where
  "ProductUpdate_dict_exclude_unset p =
     dict_entry ''name'' JStr (pu_name p)
     @ dict_entry ''description'' JStr (pu_description p)
     @ dict_entry ''price'' JFloat (pu_price p)
     @ dict_entry ''stock_quantity'' JInt (pu_stock_quantity p)
     @ dict_entry ''category'' JStr (pu_category p)"

record user_create =
  uc_username :: string
  uc_email :: string
  uc_password :: string

text \<open>The dict that \<open>register_user\<close> stores in \<open>users_db\<close> under the username.\<close>

record user_record =
  username :: string
  email :: string
  hashed_password :: string
  disabled :: bool

type_synonym users_db = "string \<rightharpoonup> user_record"

section \<open>Product handlers\<close>

text \<open>Truthiness of an \<open>Optional[str]\<close> and of an \<open>Optional[float]\<close>.\<close>

fun truthy_str :: "string option \<Rightarrow> bool" where
  "truthy_str None = False"
| "truthy_str (Some s) = (s \<noteq> [])"

fun truthy_float :: "pyfloat option \<Rightarrow> bool" where
  "truthy_float None = False"
| "truthy_float (Some (Finite x)) = (x \<noteq> 0)"
| "truthy_float (Some _) = True"

text \<open>
  The end of a handler's \<open>try\<close> block: \<open>response.raise_for_status()\<close>, then
  \<open>return response.json()\<close>.
\<close>

definition checked_json :: "response \<Rightarrow> py_exception + json" where
  "checked_json r = (case raise_for_status r of Inl e \<Rightarrow> Inl e | Inr _ \<Rightarrow> json_result r)"

definition health_check :: "upstream \<Rightarrow> string \<Rightarrow> json effect" where
  "health_check up DATA_SERVICE_URL =
     (let (sent, got) = requests_get up [Lit DATA_SERVICE_URL, Lit ''/products'']
      in (sent,
          case got of
            Inr r \<Rightarrow>
              if status_code r = 200
              then Inr (JObj [(''status'', JStr ''healthy''), (''data_service'', JStr ''connected'')])
              else Inr (JObj [(''status'', JStr ''degraded''), (''data_service'', JStr ''unavailable'')])
          | Inl e \<Rightarrow>
              Inr (JObj [(''status'', JStr ''degraded''), (''error'', JStr (str_exception e))])))"

definition get_products ::
  "upstream \<Rightarrow> string \<Rightarrow> string option \<Rightarrow> pyfloat option \<Rightarrow> json effect" where
  "get_products up DATA_SERVICE_URL category max_price =
     (let (sent, got) =
        (if truthy_str category then
           requests_get up [Lit DATA_SERVICE_URL, Lit ''/products/category/'', Lit (the category)]
         else if truthy_float max_price then
           requests_get up [Lit DATA_SERVICE_URL, Lit ''/products/price/'', Fmt_float (the max_price)]
         else
           requests_get up [Lit DATA_SERVICE_URL, Lit ''/products''])
      in (sent, except_RequestException
            (case got of Inl e \<Rightarrow> Inl e | Inr r \<Rightarrow> checked_json r)))"

definition get_product :: "upstream \<Rightarrow> string \<Rightarrow> int \<Rightarrow> json effect" where
  "get_product up DATA_SERVICE_URL product_id =
     (let (sent, got) =
        requests_get up [Lit DATA_SERVICE_URL, Lit ''/products/'', Fmt_int product_id]
      in (sent, except_RequestException
            (case got of Inl e \<Rightarrow> Inl e
             | Inr r \<Rightarrow>
                 if status_code r = 404 then Inl (not_found product_id)
                 else checked_json r)))"

definition create_product ::
  "upstream \<Rightarrow> string \<Rightarrow> product_create \<Rightarrow> user_record \<Rightarrow> json effect" where
  "create_product up DATA_SERVICE_URL product current_user =
     (let (sent, got) =
        requests_post up [Lit DATA_SERVICE_URL, Lit ''/products'']
          (JObj (ProductCreate_dict product))
      in (sent, except_RequestException
            (case got of Inl e \<Rightarrow> Inl e | Inr r \<Rightarrow> checked_json r)))"

definition update_product ::
  "upstream \<Rightarrow> string \<Rightarrow> int \<Rightarrow> product_update \<Rightarrow> user_record \<Rightarrow> json effect" where
  "update_product up DATA_SERVICE_URL product_id product current_user =
     (let (sent, got) =
        requests_put up [Lit DATA_SERVICE_URL, Lit ''/products/'', Fmt_int product_id]
          (JObj (ProductUpdate_dict_exclude_unset product))
      in (sent, except_RequestException
            (case got of Inl e \<Rightarrow> Inl e
             | Inr r \<Rightarrow>
                 if status_code r = 404 then Inl (not_found product_id)
                 else checked_json r)))"

text \<open>\<open>delete_product\<close> ends with \<open>return None\<close>, here \<open>JNull\<close>, and never reads the body.\<close>

definition delete_product :: "upstream \<Rightarrow> string \<Rightarrow> int \<Rightarrow> user_record \<Rightarrow> json effect" where
  "delete_product up DATA_SERVICE_URL product_id current_user =
     (let (sent, got) =
        requests_delete up [Lit DATA_SERVICE_URL, Lit ''/products/'', Fmt_int product_id]
      in (sent, except_RequestException
            (case got of Inl e \<Rightarrow> Inl e
             | Inr r \<Rightarrow>
                 if status_code r = 404 then Inl (not_found product_id)
                 else (case raise_for_status r of Inl e \<Rightarrow> Inl e | Inr _ \<Rightarrow> Inr JNull))))"

section \<open>User handlers\<close>

text \<open>
  \<open>main.py\<close> imports four functions from \<open>app.auth\<close>, a module that is not among the
  sources. The handlers take them as a parameter. \<open>get_current_user\<close> reads the
  request's \<open>Authorization\<close> header, of type \<open>'h\<close> here, and \<open>users_db\<close>.
\<close>

record 'h auth =
  get_password_hash :: "string \<Rightarrow> string"
  verify_password :: "string \<Rightarrow> string \<Rightarrow> bool"
  create_access_token :: "(string \<times> string) list \<Rightarrow> string"
  get_current_user :: "users_db \<Rightarrow> 'h \<Rightarrow> py_exception + user_record"

definition read_root :: json where
  "read_root = JObj [(''message'', JStr ''Welcome to Enterprise Demo Backend API'')]"

text \<open>\<open>register_user\<close> returns its result and the new \<open>users_db\<close>.\<close>

definition register_user ::
  "'h auth \<Rightarrow> users_db \<Rightarrow> user_create \<Rightarrow> (py_exception + json) \<times> users_db" where
  "register_user au users_db user =
     (if uc_username user \<in> dom users_db then
        (Inl (HTTPException HTTP_400_BAD_REQUEST ''Username already registered'' []), users_db)
      else
        let hashed = get_password_hash au (uc_password user)
        in (Inr (JObj [(''username'', JStr (uc_username user)),
                       (''email'', JStr (uc_email user)),
                       (''disabled'', JBool False)]),
            users_db(uc_username user \<mapsto>
              \<lparr>username = uc_username user, email = uc_email user,
               hashed_password = hashed, disabled = False\<rparr>)))"

text \<open>
  \<open>users_db.get(username)\<close> is \<open>None\<close> or a stored dict, which is never empty, so
  \<open>not user\<close> is \<open>user = None\<close>.
\<close>

definition login_for_access_token ::
  "'h auth \<Rightarrow> users_db \<Rightarrow> string \<Rightarrow> string \<Rightarrow> py_exception + json" where
  "login_for_access_token au users_db uname password =
     (let user = users_db uname
      in if user = None \<or> \<not> verify_password au password (hashed_password (the user)) then
           Inl (HTTPException HTTP_401_UNAUTHORIZED ''Incorrect username or password''
                  [(''WWW-Authenticate'', ''Bearer'')])
         else
           let access_token = create_access_token au [(''sub'', uname)]
           in Inr (JObj [(''access_token'', JStr access_token), (''token_type'', JStr ''bearer'')]))"

definition read_users_me :: "user_record \<Rightarrow> user_record" where
  "read_users_me current_user = current_user"

section \<open>The routes\<close>

text \<open>
  One constructor for each decorated function of \<open>main.py\<close>, with the arguments FastAPI
  has parsed and validated from the request.
\<close>

datatype call =
    Read_root
  | Health_check
  | Get_products "string option" "pyfloat option"
  | Get_product int
  | Create_product product_create
  | Update_product int product_update
  | Delete_product int
  | Register_user user_create
  | Login_for_access_token string string
  | Read_users_me

datatype content = Json json | Plain string | Empty

datatype reply = Reply int content

text \<open>
  What FastAPI makes of a handler's result: the route's status code with the returned
  value (no body when that code is 204), the status code and detail of an
  \<open>HTTPException\<close>, and 500 for any other exception.
\<close>

fun respond :: "int \<Rightarrow> py_exception + json \<Rightarrow> reply" where
  "respond ok (Inr v) = Reply ok (if ok = HTTP_204_NO_CONTENT then Empty else Json v)"
| "respond ok (Inl (HTTPException s d h)) = Reply s (Json (JObj [(''detail'', JStr d)]))"
| "respond ok (Inl e) = Reply 500 (Plain ''Internal Server Error'')"

subsection \<open>Response models\<close>

text \<open>
  A route with \<open>response_model=M\<close> validates the value its handler returns against
  \<open>M\<close> and replies with the fields of \<open>M\<close> only; a value that does not validate is a
  \<open>ResponseValidationError\<close>, which is no \<open>HTTPException\<close>, so the reply is 500.

  Which decoded JSON values pydantic takes for a field of type \<open>str\<close>, \<open>float\<close> or
  \<open>int\<close>, and as what, is the library's conversion table; it is a parameter here.
\<close>

record pydantic =
  str_field :: "json \<Rightarrow> string option"
  float_field :: "json \<Rightarrow> pyfloat option"
  int_field :: "json \<Rightarrow> int option"

text \<open>\<open>Field(gt=0)\<close> on a float: \<open>NaN > 0\<close> is false.\<close>

fun gt_0 :: "pyfloat \<Rightarrow> bool" where
  "gt_0 (Finite x) = (0 < x)"
| "gt_0 PosInf = True"
| "gt_0 NegInf = False"
| "gt_0 NaN = False"

text \<open>
  A required field: the key must be there and its value must convert. (A decoded JSON
  object holds each key once.)
\<close>

definition required :: "(json \<Rightarrow> 'a option) \<Rightarrow> (string \<times> json) list \<Rightarrow> string \<Rightarrow> 'a option" where
  "required conv kvs k = (case map_of kvs k of None \<Rightarrow> None | Some j \<Rightarrow> conv j)"

text \<open>
  \<open>ProductResponse\<close> of \<open>models.py\<close>: the fields of \<open>ProductBase\<close> with their bounds,
  then \<open>id\<close>. The value must be an object with all six fields; other keys are dropped.
\<close>

fun ProductResponse_model :: "pydantic \<Rightarrow> json \<Rightarrow> json option" where
  "ProductResponse_model pyd (JObj kvs) =
     Option.bind (required (str_field pyd) kvs ''name'') (\<lambda>name.
     Option.bind (required (str_field pyd) kvs ''description'') (\<lambda>description.
     Option.bind (required (float_field pyd) kvs ''price'') (\<lambda>price.
     Option.bind (required (int_field pyd) kvs ''stock_quantity'') (\<lambda>stock_quantity.
     Option.bind (required (str_field pyd) kvs ''category'') (\<lambda>category.
     Option.bind (required (int_field pyd) kvs ''id'') (\<lambda>ident.
       if gt_0 price \<and> 0 \<le> stock_quantity then
         Some (JObj [(''name'', JStr name), (''description'', JStr description),
                     (''price'', JFloat price), (''stock_quantity'', JInt stock_quantity),
                     (''category'', JStr category), (''id'', JInt ident)])
       else None))))))"
| "ProductResponse_model pyd v = None"

text \<open>\<open>List[ProductResponse]\<close>: an array whose elements all validate.\<close>

fun List_ProductResponse_model :: "pydantic \<Rightarrow> json \<Rightarrow> json option" where
  "List_ProductResponse_model pyd (JArr vs) =
     map_option JArr (those (map (ProductResponse_model pyd) vs))"
| "List_ProductResponse_model pyd v = None"

fun serialize_response ::
  "(json \<Rightarrow> json option) \<Rightarrow> py_exception + json \<Rightarrow> py_exception + json" where
  "serialize_response model (Inl e) = Inl e"
| "serialize_response model (Inr v) =
     (case model v of
        None \<Rightarrow> Inl (Exception ''ResponseValidationError'')
      | Some w \<Rightarrow> Inr w)"

text \<open>\<open>response_model=UserResponse\<close> applied to the user that \<open>read_users_me\<close> returns.\<close>

definition UserResponse_json :: "user_record \<Rightarrow> json" where
  "UserResponse_json u =
     JObj [(''username'', JStr (username u)), (''email'', JStr (email u)),
           (''disabled'', JBool (disabled u))]"

subsection \<open>Dependencies and dispatch\<close>

text \<open>
  A parameter \<open>current_user = Depends(get_current_user)\<close>: FastAPI calls
  \<open>get_current_user\<close> first, and calls the handler only with the user it returns.
\<close>

definition Depends_get_current_user ::
  "'h auth \<Rightarrow> users_db \<Rightarrow> 'h \<Rightarrow> (user_record \<Rightarrow> reply \<times> users_db \<times> request list)
     \<Rightarrow> reply \<times> users_db \<times> request list" where
  "Depends_get_current_user au users_db hdr handler =
     (case get_current_user au users_db hdr of
        Inl e \<Rightarrow> (respond 200 (Inl e), users_db, [])
      | Inr current_user \<Rightarrow> handler current_user)"

text \<open>
  The application: the reply to a request, the \<open>users_db\<close> after it, and the calls made
  to the data service. The four product routes that return a product or a list of
  products pass the handler's value through their response model. \<open>register_user\<close>
  and \<open>login_for_access_token\<close> build their dict from values that were validated on the
  way in, with exactly the fields of \<open>UserResponse\<close> and of \<open>Token\<close>, so their
  response model leaves the dict as it is. \<open>read_root\<close>, \<open>health_check\<close> and
  \<open>delete_product\<close> have no response model.
\<close>

fun app ::
  "'h auth \<Rightarrow> pydantic \<Rightarrow> upstream \<Rightarrow> string \<Rightarrow> users_db \<Rightarrow> 'h \<Rightarrow> call
     \<Rightarrow> reply \<times> users_db \<times> request list" where
  "app au pyd up base db hdr Read_root = (respond 200 (Inr read_root), db, [])"
| "app au pyd up base db hdr Health_check =
     (let (sent, r) = health_check up base in (respond 200 r, db, sent))"
| "app au pyd up base db hdr (Get_products category max_price) =
     (let (sent, r) = get_products up base category max_price
      in (respond 200 (serialize_response (List_ProductResponse_model pyd) r), db, sent))"
| "app au pyd up base db hdr (Get_product product_id) =
     (let (sent, r) = get_product up base product_id
      in (respond 200 (serialize_response (ProductResponse_model pyd) r), db, sent))"
| "app au pyd up base db hdr (Create_product product) =
     Depends_get_current_user au db hdr (\<lambda>current_user.
       let (sent, r) = create_product up base product current_user
       in (respond HTTP_201_CREATED (serialize_response (ProductResponse_model pyd) r),
           db, sent))"
| "app au pyd up base db hdr (Update_product product_id product) =
     Depends_get_current_user au db hdr (\<lambda>current_user.
       let (sent, r) = update_product up base product_id product current_user
       in (respond 200 (serialize_response (ProductResponse_model pyd) r), db, sent))"
| "app au pyd up base db hdr (Delete_product product_id) =
     Depends_get_current_user au db hdr (\<lambda>current_user.
       let (sent, r) = delete_product up base product_id current_user
       in (respond HTTP_204_NO_CONTENT r, db, sent))"
| "app au pyd up base db hdr (Register_user user) =
     (let (r, db') = register_user au db user in (respond HTTP_201_CREATED r, db', []))"
| "app au pyd up base db hdr (Login_for_access_token uname password) =
     (respond 200 (login_for_access_token au db uname password), db, [])"
| "app au pyd up base db hdr Read_users_me =
     Depends_get_current_user au db hdr (\<lambda>current_user.
       (respond 200 (Inr (UserResponse_json (read_users_me current_user))), db, []))"

text \<open>A sequence of registrations, one after the other, with the result of each.\<close>

fun register_all ::
  "'h auth \<Rightarrow> users_db \<Rightarrow> user_create list \<Rightarrow> (py_exception + json) list \<times> users_db" where
  "register_all au db [] = ([], db)"
| "register_all au db (u # us) =
     (let (r, db') = register_user au db u;
          (rs, db'') = register_all au db' us
      in (r # rs, db''))"

text \<open>Whether a handler returned rather than raised.\<close>

fun succeeded :: "py_exception + json \<Rightarrow> bool" where
  "succeeded (Inr v) = True"
| "succeeded (Inl e) = False"

section \<open>Token service and authentication guard\<close>

text \<open>
  Modelled from the spec: \<open>app/auth.py\<close>, which holds the token service and
  \<open>get_current_user\<close>, is not among the sources. Section 4.2 of the specification:
  \<open>issue(subject)\<close> produces a signed token embedding the subject and an expiry
  timestamp a fixed duration from issuance; \<open>verify(token)\<close> fails with Unauthenticated
  if the signature is invalid, the token malformed, or expired. The signing function
  (with the process-wide key) is \<open>sign\<close>, the fixed duration \<open>ttl\<close>, the clock
  \<open>now\<close>, in seconds.
\<close>

datatype 'sig token = Malformed string | Signed string nat 'sig

datatype auth_error = Unauthenticated

definition issue :: "(string \<times> nat \<Rightarrow> 'sig) \<Rightarrow> nat \<Rightarrow> nat \<Rightarrow> string \<Rightarrow> 'sig token" where
  "issue sign ttl now subject = Signed subject (now + ttl) (sign (subject, now + ttl))"

fun verify :: "(string \<times> nat \<Rightarrow> 'sig) \<Rightarrow> nat \<Rightarrow> 'sig token \<Rightarrow> auth_error + string" where
  "verify sign now (Malformed s) = Inl Unauthenticated"
| "verify sign now (Signed subject expiry sg) =
     (if sg \<noteq> sign (subject, expiry) then Inl Unauthenticated
      else if expiry < now then Inl Unauthenticated
      else Inr subject)"

text \<open>
  Modelled from the spec: section 4.4, the Auth Guard. Extract the bearer token from the
  Authorization header (\<open>None\<close>: the header is absent), call \<open>verify\<close>, on success look
  the user up in the User Store; if the user is missing or the token invalid, fail with
  Unauthenticated (HTTP 401).
\<close>

definition find_user :: "users_db \<Rightarrow> string \<Rightarrow> user_record option" where
  "find_user users_db uname = users_db uname"

definition unauthenticated :: py_exception where
  "unauthenticated =
     HTTPException HTTP_401_UNAUTHORIZED ''Unauthenticated'' [(''WWW-Authenticate'', ''Bearer'')]"

definition auth_guard ::
  "(string \<times> nat \<Rightarrow> 'sig) \<Rightarrow> nat \<Rightarrow> users_db \<Rightarrow> 'sig token option
     \<Rightarrow> py_exception + user_record" where
  "auth_guard sign now users_db authorization =
     (case authorization of
        None \<Rightarrow> Inl unauthenticated
      | Some tok \<Rightarrow>
          (case verify sign now tok of
             Inl _ \<Rightarrow> Inl unauthenticated
           | Inr subject \<Rightarrow>
               (case find_user users_db subject of
                  None \<Rightarrow> Inl unauthenticated
                | Some user \<Rightarrow> Inr user)))"

text \<open>
  The endpoints that section 4.4 of the specification lists as protected: product create,
  update, delete, and "who am I".
\<close>

fun spec_protected :: "call \<Rightarrow> bool" where
  "spec_protected (Create_product p) = True"
| "spec_protected (Update_product i p) = True"
| "spec_protected (Delete_product i) = True"
| "spec_protected Read_users_me = True"
| "spec_protected c = False"

section \<open>Sample inputs\<close>

text \<open>A data service that cannot be reached: every call raises a connection error.\<close>

definition upstream_refusing :: upstream where
  "upstream_refusing rq = Raised (RequestException ''Connection refused'')"



text \<open>
  A data service that answers every call with status 200 and one stored product, which
  carries a key that is not a field of \<open>ProductResponse\<close>.
\<close>

definition stored_lamp :: json where
  "stored_lamp =
     JObj [(''id'', JInt 7), (''name'', JStr ''Lamp''), (''description'', JStr ''Desk lamp''),
           (''price'', JFloat (Finite 20)), (''stock_quantity'', JInt 3),
           (''category'', JStr ''home''), (''warehouse'', JStr ''B2'')]"

definition upstream_ok :: upstream where
  "upstream_ok rq = Responded \<lparr>status_code = 200, reason = ''OK'',
     url = ''http://data/api/products'', json_result = Inr stored_lamp\<rparr>"

text \<open>Conversions that take a JSON value of the field's own type only.\<close>

fun exact_str :: "json \<Rightarrow> string option" where
  "exact_str (JStr s) = Some s"
| "exact_str v = None"

fun exact_float :: "json \<Rightarrow> pyfloat option" where
  "exact_float (JFloat x) = Some x"
| "exact_float v = None"

fun exact_int :: "json \<Rightarrow> int option" where
  "exact_int (JInt i) = Some i"
| "exact_int v = None"

definition sample_pydantic :: pydantic where
  "sample_pydantic = \<lparr>str_field = exact_str, float_field = exact_float, int_field = exact_int\<rparr>"

definition sample_product :: product_create where
  "sample_product = \<lparr>pc_name = ''Lamp'', pc_description = ''Desk lamp'', pc_price = Finite 20,
     pc_stock_quantity = 3, pc_category = ''home''\<rparr>"

definition price_only :: product_update where
  "price_only = \<lparr>pu_name = Unset, pu_description = Unset, pu_price = Given (Some (Finite 20)),
     pu_stock_quantity = Unset, pu_category = Unset\<rparr>"

definition alice :: user_create where
  "alice = \<lparr>uc_username = ''alice'', uc_email = ''alice@example.com'', uc_password = ''wonderland''\<rparr>"

definition alice_again :: user_create where
  "alice_again = \<lparr>uc_username = ''alice'', uc_email = ''other@example.com'', uc_password = ''rabbit''\<rparr>"

definition bob :: user_create where
  "bob = \<lparr>uc_username = ''bob'', uc_email = ''bob@example.com'', uc_password = ''builder''\<rparr>"

text \<open>
  A stand-in for \<open>app.auth\<close>: the hash reverses the password behind a prefix, a token is
  the subject behind a prefix, and no request is authenticated.
\<close>

definition sample_hash :: "string \<Rightarrow> string" where
  "sample_hash pw = ''h$'' @ rev pw"

definition sample_verify :: "string \<Rightarrow> string \<Rightarrow> bool" where
  "sample_verify pw h = (h = sample_hash pw)"

fun sample_token :: "(string \<times> string) list \<Rightarrow> string" where
  "sample_token [] = ''tok''"
| "sample_token ((k, v) # kvs) = ''tok:'' @ v"

definition sample_auth :: "unit auth" where
  "sample_auth = \<lparr>get_password_hash = sample_hash, verify_password = sample_verify,
     create_access_token = sample_token,
     get_current_user = (\<lambda>db hdr. Inl (HTTPException 401 ''Not authenticated'' []))\<rparr>"

text \<open>A toy signature for the token service, and a store that holds one user.\<close>

definition sample_sign :: "string \<times> nat \<Rightarrow> nat" where
  "sample_sign p = length (fst p) + snd p + 7"

definition carol_record :: user_record where
  "carol_record = \<lparr>username = ''carol'', email = ''carol@example.com'',
     hashed_password = ''h$lorac'', disabled = False\<rparr>"

definition carol_db :: users_db where
  "carol_db = Map.empty(''carol'' \<mapsto> carol_record)"

definition guarded_auth :: "nat \<Rightarrow> nat token option auth" where
  "guarded_auth now = \<lparr>get_password_hash = sample_hash, verify_password = sample_verify,
     create_access_token = sample_token,
     get_current_user = auth_guard sample_sign now\<rparr>"

section \<open>What each handler sends, and what it makes of the answer\<close>

lemmas status_defs = HTTP_503_SERVICE_UNAVAILABLE_def HTTP_404_NOT_FOUND_def
  HTTP_400_BAD_REQUEST_def HTTP_401_UNAUTHORIZED_def HTTP_201_CREATED_def HTTP_204_NO_CONTENT_def

lemma checked_json_cases:
  "checked_json r =
     (if 400 \<le> status_code r \<and> status_code r < 600
      then Inl (RequestException (http_error_msg r)) else json_result r)"
  by (simp add: checked_json_def raise_for_status_def)


lemma get_products_call:
  "get_products up base category max_price =
     (let rq = Request GET
            (if truthy_str category then [Lit base, Lit ''/products/category/'', Lit (the category)]
             else if truthy_float max_price then
               [Lit base, Lit ''/products/price/'', Fmt_float (the max_price)]
             else [Lit base, Lit ''/products'']) None
      in ([rq], except_RequestException
                  (case up rq of Responded r \<Rightarrow> checked_json r | Raised e \<Rightarrow> Inl e)))"
  by (simp add: get_products_def requests_get_def requests_call_def Let_def split: outcome.splits)

lemma get_product_call:
  "get_product up base i =
     (let rq = Request GET [Lit base, Lit ''/products/'', Fmt_int i] None
      in ([rq], except_RequestException
                  (case up rq of
                     Responded r \<Rightarrow> if status_code r = 404 then Inl (not_found i) else checked_json r
                   | Raised e \<Rightarrow> Inl e)))"
  by (simp add: get_product_def requests_get_def requests_call_def Let_def split: outcome.splits)


lemma update_product_call:
  "update_product up base i p u =
     (let rq = Request PUT [Lit base, Lit ''/products/'', Fmt_int i]
                 (Some (JObj (ProductUpdate_dict_exclude_unset p)))
      in ([rq], except_RequestException
                  (case up rq of
                     Responded r \<Rightarrow> if status_code r = 404 then Inl (not_found i) else checked_json r
                   | Raised e \<Rightarrow> Inl e)))"
  by (simp add: update_product_def requests_put_def requests_call_def Let_def split: outcome.splits)

lemma delete_product_call:
  "delete_product up base i u =
     (let rq = Request DELETE [Lit base, Lit ''/products/'', Fmt_int i] None
      in ([rq], except_RequestException
                  (case up rq of
                     Responded r \<Rightarrow>
                       if status_code r = 404 then Inl (not_found i)
                       else (case raise_for_status r of Inl e \<Rightarrow> Inl e | Inr _ \<Rightarrow> Inr JNull)
                   | Raised e \<Rightarrow> Inl e)))"
  by (simp add: delete_product_def requests_delete_def requests_call_def Let_def split: outcome.splits)


section \<open>Filter dispatch of the product list\<close>

text \<open>
  C1, as amended. A category that is not empty selects the category path, whatever
  \<open>max_price\<close> is, and the handler's result is made from the answer to that one call
  alone; with no category, a \<open>max_price\<close> that is truthy (not zero) selects the price
  path; with neither filter the unfiltered list path is used.
\<close>

theorem get_products_filter_dispatch:
  "(c \<noteq> [] \<longrightarrow>
      get_products up base (Some c) max_price
        = ([Request GET [Lit base, Lit ''/products/category/'', Lit c] None],
           except_RequestException
             (case up (Request GET [Lit base, Lit ''/products/category/'', Lit c] None) of
                Responded r \<Rightarrow> checked_json r | Raised e \<Rightarrow> Inl e)))
   \<and> (truthy_float (Some m) \<longrightarrow>
      get_products up base None (Some m)
        = ([Request GET [Lit base, Lit ''/products/price/'', Fmt_float m] None],
           except_RequestException
             (case up (Request GET [Lit base, Lit ''/products/price/'', Fmt_float m] None) of
                Responded r \<Rightarrow> checked_json r | Raised e \<Rightarrow> Inl e)))
   \<and> get_products up base None None
        = ([Request GET [Lit base, Lit ''/products''] None],
           except_RequestException
             (case up (Request GET [Lit base, Lit ''/products''] None) of
                Responded r \<Rightarrow> checked_json r | Raised e \<Rightarrow> Inl e))"
  by (simp add: get_products_call Let_def)

theorem get_products_filter_dispatch_witness:
  "''toys'' \<noteq> [] \<and> truthy_float (Some (Finite 5))
   \<and> fst (get_products upstream_refusing ''http://data/api'' (Some ''toys'') (Some (Finite 5)))
       = [Request GET [Lit ''http://data/api'', Lit ''/products/category/'', Lit ''toys''] None]
   \<and> fst (get_products upstream_refusing ''http://data/api'' None (Some (Finite 5)))
       = [Request GET [Lit ''http://data/api'', Lit ''/products/price/'', Fmt_float (Finite 5)] None]"
  using get_products_filter_dispatch
    [of "''toys''" upstream_refusing "''http://data/api''" "Some (Finite 5)" "Finite 5"]
  by (simp add: Let_def)

text \<open>
  C1 as stated fails: with both filters supplied, \<open>category\<close> the empty string and
  \<open>max_price\<close> 5, the call does not go to the category path.
\<close>

theorem get_products_both_filters_counterexample:
  "fst (get_products upstream_refusing ''http://data/api'' (Some '''') (Some (Finite 5)))
     \<noteq> [Request GET [Lit ''http://data/api'', Lit ''/products/category/'', Lit ''''] None]"
  by (simp add: get_products_call Let_def)

text \<open>
  C10. The filter dispatch treats falsy filter values as absent. A request with
  \<open>category\<close> the empty string is handled exactly as the same request without a
  category, whatever \<open>max_price\<close> is: the category path is not taken, a supplied truthy
  \<open>max_price\<close> selects the price path, and otherwise the unfiltered list path is used.
  A request with \<open>max_price\<close> equal to 0 is handled exactly as the same request without
  \<open>max_price\<close>: the price path is not taken, and with no category taken either the
  unfiltered list path is used.
\<close>

theorem get_products_falsy_filters:
  "get_products up base (Some '''') max_price = get_products up base None max_price
   \<and> fst (get_products up base (Some '''') max_price)
       \<noteq> [Request GET [Lit base, Lit ''/products/category/'', Lit ''''] None]
   \<and> (truthy_float max_price \<longrightarrow>
      fst (get_products up base (Some '''') max_price)
        = [Request GET [Lit base, Lit ''/products/price/'', Fmt_float (the max_price)] None])
   \<and> (\<not> truthy_float max_price \<longrightarrow>
      fst (get_products up base (Some '''') max_price)
        = [Request GET [Lit base, Lit ''/products''] None])
   \<and> get_products up base category (Some (Finite 0)) = get_products up base category None
   \<and> fst (get_products up base category (Some (Finite 0)))
       \<noteq> [Request GET [Lit base, Lit ''/products/price/'', Fmt_float (Finite 0)] None]
   \<and> (\<not> truthy_str category \<longrightarrow>
      fst (get_products up base category (Some (Finite 0)))
        = [Request GET [Lit base, Lit ''/products''] None])"
  by (simp add: get_products_call Let_def)

theorem get_products_falsy_filters_witness:
  "truthy_float (Some (Finite 5)) \<and> \<not> truthy_float None \<and> \<not> truthy_str (Some '''')
   \<and> fst (get_products upstream_refusing ''http://data/api'' (Some '''') (Some (Finite 5)))
        = [Request GET [Lit ''http://data/api'', Lit ''/products/price/'', Fmt_float (Finite 5)] None]
   \<and> fst (get_products upstream_refusing ''http://data/api'' (Some '''') None)
        = [Request GET [Lit ''http://data/api'', Lit ''/products''] None]
   \<and> fst (get_products upstream_refusing ''http://data/api'' (Some '''') (Some (Finite 0)))
        = [Request GET [Lit ''http://data/api'', Lit ''/products''] None]"
  using get_products_falsy_filters
    [of upstream_refusing "''http://data/api''" "Some (Finite 5)" "Some ''''"]
    get_products_falsy_filters
    [of upstream_refusing "''http://data/api''" None "Some ''''"]
  by (simp add: get_products_call Let_def)

section \<open>Response mapping of the product handlers\<close>




section \<open>Health check\<close>


section \<open>Partial update\<close>

lemma map_of_dict_entry:
  "map_of (dict_entry k enc f) k' =
     (if k' = k
      then (case f of Unset \<Rightarrow> None
            | Given v \<Rightarrow> Some (case v of None \<Rightarrow> JNull | Some x \<Rightarrow> enc x))
      else None)"
  by (cases "(k, enc, f)" rule: dict_entry.cases) auto

lemma keys_dict_entry:
  "map fst (dict_entry k enc f) = (if f = Unset then [] else [k])"
  by (cases "(k, enc, f)" rule: dict_entry.cases) auto

text \<open>
  C2. \<open>update_product\<close> makes one PUT call whose body is
  \<open>product.dict(exclude_unset=True)\<close>. The keys of that body are the names of the fields
  the caller set, in the order of the model and each once; a field that was set is
  sent with its value (\<open>null\<close> if the caller set it to null), and a field that was not
  set is not in the body. A request that sets only \<open>price\<close> forwards the price alone.
\<close>

theorem update_product_forwards_set_fields:
  "fst (update_product up base i p u)
     = [Request PUT [Lit base, Lit ''/products/'', Fmt_int i]
          (Some (JObj (ProductUpdate_dict_exclude_unset p)))]
   \<and> map fst (ProductUpdate_dict_exclude_unset p)
     = (if pu_name p = Unset then [] else [''name''])
       @ (if pu_description p = Unset then [] else [''description''])
       @ (if pu_price p = Unset then [] else [''price''])
       @ (if pu_stock_quantity p = Unset then [] else [''stock_quantity''])
       @ (if pu_category p = Unset then [] else [''category''])
   \<and> map_of (ProductUpdate_dict_exclude_unset p) ''name''
     = (case pu_name p of Unset \<Rightarrow> None
        | Given v \<Rightarrow> Some (case v of None \<Rightarrow> JNull | Some x \<Rightarrow> JStr x))
   \<and> map_of (ProductUpdate_dict_exclude_unset p) ''description''
     = (case pu_description p of Unset \<Rightarrow> None
        | Given v \<Rightarrow> Some (case v of None \<Rightarrow> JNull | Some x \<Rightarrow> JStr x))
   \<and> map_of (ProductUpdate_dict_exclude_unset p) ''price''
     = (case pu_price p of Unset \<Rightarrow> None
        | Given v \<Rightarrow> Some (case v of None \<Rightarrow> JNull | Some x \<Rightarrow> JFloat x))
   \<and> map_of (ProductUpdate_dict_exclude_unset p) ''stock_quantity''
     = (case pu_stock_quantity p of Unset \<Rightarrow> None
        | Given v \<Rightarrow> Some (case v of None \<Rightarrow> JNull | Some x \<Rightarrow> JInt x))
   \<and> map_of (ProductUpdate_dict_exclude_unset p) ''category''
     = (case pu_category p of Unset \<Rightarrow> None
        | Given v \<Rightarrow> Some (case v of None \<Rightarrow> JNull | Some x \<Rightarrow> JStr x))
   \<and> ProductUpdate_dict_exclude_unset
        \<lparr>pu_name = Unset, pu_description = Unset, pu_price = Given (Some x),
         pu_stock_quantity = Unset, pu_category = Unset\<rparr>
     = [(''price'', JFloat x)]"
proof (intro conjI)
  show "fst (update_product up base i p u)
     = [Request PUT [Lit base, Lit ''/products/'', Fmt_int i]
          (Some (JObj (ProductUpdate_dict_exclude_unset p)))]"
    by (simp add: update_product_call Let_def)
  show "map fst (ProductUpdate_dict_exclude_unset p)
     = (if pu_name p = Unset then [] else [''name''])
       @ (if pu_description p = Unset then [] else [''description''])
       @ (if pu_price p = Unset then [] else [''price''])
       @ (if pu_stock_quantity p = Unset then [] else [''stock_quantity''])
       @ (if pu_category p = Unset then [] else [''category''])"
    by (simp only: ProductUpdate_dict_exclude_unset_def map_append keys_dict_entry)
qed (simp_all add: ProductUpdate_dict_exclude_unset_def map_add_def
       map_of_dict_entry split: field.splits option.splits)

section \<open>Registration\<close>

lemma register_user_absent:
  "db (uc_username u) = None \<Longrightarrow>
   register_user au db u =
     (Inr (JObj [(''username'', JStr (uc_username u)), (''email'', JStr (uc_email u)),
                 (''disabled'', JBool False)]),
      db(uc_username u \<mapsto>
        \<lparr>username = uc_username u, email = uc_email u,
         hashed_password = get_password_hash au (uc_password u), disabled = False\<rparr>))"
  by (simp add: register_user_def Let_def dom_def)

lemma register_user_present:
  "db (uc_username u) = Some r \<Longrightarrow>
   register_user au db u =
     (Inl (HTTPException 400 ''Username already registered'' []), db)"
  by (simp add: register_user_def dom_def status_defs)

text \<open>
  C3. Registering a username that is not in the user store succeeds with status 201, and
  stores under that username a record whose \<open>hashed_password\<close> is
  \<open>get_password_hash\<close> of the password (the record has no field for the password
  itself). Registering the same username again, with whatever email and password, fails
  with status 400, \<open>Username already registered\<close>, and changes nothing.
\<close>

theorem register_twice:
  "users_db (uc_username user) = None \<and> uc_username again = uc_username user \<longrightarrow>
     app au pyd up base users_db hdr (Register_user user)
       = (Reply 201 (Json (JObj [(''username'', JStr (uc_username user)),
                                 (''email'', JStr (uc_email user)),
                                 (''disabled'', JBool False)])),
          users_db(uc_username user \<mapsto>
            \<lparr>username = uc_username user, email = uc_email user,
             hashed_password = get_password_hash au (uc_password user), disabled = False\<rparr>),
          [])
     \<and> app au pyd up base (fst (snd (app au pyd up base users_db hdr (Register_user user)))) hdr'
           (Register_user again)
       = (Reply 400 (Json (JObj [(''detail'', JStr ''Username already registered'')])),
          fst (snd (app au pyd up base users_db hdr (Register_user user))),
          [])"
  by (simp add: register_user_absent register_user_present status_defs)

theorem register_twice_witness:
  "Map.empty (uc_username alice) = None \<and> uc_username alice_again = uc_username alice
   \<and> fst (app sample_auth sample_pydantic upstream_refusing ''http://data/api'' Map.empty () (Register_user alice))
       = Reply 201 (Json (JObj [(''username'', JStr ''alice''),
                                (''email'', JStr ''alice@example.com''),
                                (''disabled'', JBool False)]))
   \<and> map_option hashed_password
        (fst (snd (app sample_auth sample_pydantic upstream_refusing ''http://data/api'' Map.empty ()
                     (Register_user alice))) ''alice'')
       = Some ''h$dnalrednow''
   \<and> fst (app sample_auth sample_pydantic upstream_refusing ''http://data/api''
             (fst (snd (app sample_auth sample_pydantic upstream_refusing ''http://data/api'' Map.empty ()
                          (Register_user alice)))) ()
             (Register_user alice_again))
       = Reply 400 (Json (JObj [(''detail'', JStr ''Username already registered'')]))"
  using register_twice [of Map.empty alice alice_again sample_auth sample_pydantic upstream_refusing
      "''http://data/api''" "()" "()"]
  by (simp add: alice_def alice_again_def sample_auth_def sample_hash_def register_user_def
      Let_def status_defs)

section \<open>Uniqueness of usernames\<close>

lemma register_all_Cons:
  "register_all au db (u # us) =
     (fst (register_user au db u) # fst (register_all au (snd (register_user au db u)) us),
      snd (register_all au (snd (register_user au db u)) us))"
  by (simp split: prod.splits)

lemma register_all_lookup:
  "snd (register_all au db us) k =
     (case db k of
        Some r \<Rightarrow> Some r
      | None \<Rightarrow>
          map_option
            (\<lambda>u. \<lparr>username = uc_username u, email = uc_email u,
                  hashed_password = get_password_hash au (uc_password u), disabled = False\<rparr>)
            (List.find (\<lambda>u. uc_username u = k) us))"
proof (induction us arbitrary: db)
  case Nil
  then show ?case by (simp split: option.splits)
next
  case (Cons u us)
  show ?case
  proof (cases "db (uc_username u)")
    case None
    define db' where "db' = db(uc_username u \<mapsto>
        \<lparr>username = uc_username u, email = uc_email u,
         hashed_password = get_password_hash au (uc_password u), disabled = False\<rparr>)"
    have step: "snd (register_user au db u) = db'"
      using None by (simp add: register_user_absent db'_def)
    have look: "db' k = (if k = uc_username u then Some
        \<lparr>username = uc_username u, email = uc_email u,
         hashed_password = get_password_hash au (uc_password u), disabled = False\<rparr> else db k)"
      by (simp add: db'_def)
    show ?thesis
      using Cons.IH [of db'] None
      by (simp del: register_all.simps add: register_all_Cons step look split: option.splits)
  next
    case (Some r)
    have step: "snd (register_user au db u) = db"
      using Some by (simp add: register_user_present)
    show ?thesis
      using Cons.IH [of db] Some
      by (auto simp del: register_all.simps simp add: register_all_Cons step split: option.splits)
  qed
qed

lemma successes_count:
  "length (filter (\<lambda>p. uc_username (fst p) = k \<and> succeeded (snd p))
       (zip us (fst (register_all au db us))))
   = (if db k = None \<and> k \<in> uc_username ` set us then 1 else 0)"
proof (induction us arbitrary: db)
  case Nil
  then show ?case by simp
next
  case (Cons u us)
  show ?case
  proof (cases "db (uc_username u)")
    case None
    define db' where "db' = db(uc_username u \<mapsto>
        \<lparr>username = uc_username u, email = uc_email u,
         hashed_password = get_password_hash au (uc_password u), disabled = False\<rparr>)"
    have step: "snd (register_user au db u) = db'" "succeeded (fst (register_user au db u))"
      using None by (simp_all add: register_user_absent db'_def)
    have look: "db' k = None \<longleftrightarrow> db k = None \<and> k \<noteq> uc_username u"
      by (simp add: db'_def)
    show ?thesis
      using Cons.IH [of db'] None
      by (auto simp del: register_all.simps simp add: register_all_Cons step look)
  next
    case (Some r)
    have step: "snd (register_user au db u) = db" "\<not> succeeded (fst (register_user au db u))"
      using Some by (simp_all add: register_user_present)
    show ?thesis
      using Cons.IH [of db] Some
      by (auto simp del: register_all.simps simp add: register_all_Cons step)
  qed
qed

text \<open>
  C4. Start from the empty user store and run any sequence of registrations. For every
  username \<open>k\<close>: the store then holds under \<open>k\<close> the record made by the first
  registration of \<open>k\<close> in the sequence, and nothing if there was none; at most one
  registration of \<open>k\<close> in the sequence succeeded. And from any store, a registration
  that succeeds was for a username not yet in the store, and leaves every record that
  was in the store as it was.
\<close>

theorem username_unique:
  "snd (register_all au Map.empty us) k
     = map_option
         (\<lambda>u. \<lparr>username = uc_username u, email = uc_email u,
               hashed_password = get_password_hash au (uc_password u), disabled = False\<rparr>)
         (List.find (\<lambda>u. uc_username u = k) us)
   \<and> length (filter (\<lambda>p. uc_username (fst p) = k \<and> succeeded (snd p))
               (zip us (fst (register_all au Map.empty us)))) \<le> 1
   \<and> (succeeded (fst (register_user au db u)) \<longrightarrow> db (uc_username u) = None)
   \<and> (succeeded (fst (register_user au db u)) \<and> db k' = Some r
        \<longrightarrow> snd (register_user au db u) k' = Some r)"
proof (intro conjI impI)
  show "snd (register_all au Map.empty us) k
     = map_option
         (\<lambda>u. \<lparr>username = uc_username u, email = uc_email u,
               hashed_password = get_password_hash au (uc_password u), disabled = False\<rparr>)
         (List.find (\<lambda>u. uc_username u = k) us)"
    by (simp add: register_all_lookup)
  show "length (filter (\<lambda>p. uc_username (fst p) = k \<and> succeeded (snd p))
               (zip us (fst (register_all au Map.empty us)))) \<le> 1"
    by (simp add: successes_count)
  show "db (uc_username u) = None" if "succeeded (fst (register_user au db u))"
    using that by (cases "db (uc_username u)") (simp_all add: register_user_present)
  show "snd (register_user au db u) k' = Some r"
    if "succeeded (fst (register_user au db u)) \<and> db k' = Some r"
    using that by (cases "db (uc_username u)") (auto simp: register_user_present register_user_absent)
qed

theorem username_unique_witness:
  "succeeded (fst (register_user sample_auth carol_db alice))
   \<and> carol_db ''carol'' = Some carol_record
   \<and> snd (register_user sample_auth carol_db alice) ''carol'' = Some carol_record
   \<and> carol_db (uc_username alice) = None
   \<and> snd (register_all sample_auth Map.empty [alice, bob, alice_again]) ''alice''
       = Some \<lparr>username = ''alice'', email = ''alice@example.com'',
               hashed_password = ''h$dnalrednow'', disabled = False\<rparr>
   \<and> length (filter (\<lambda>p. uc_username (fst p) = ''alice'' \<and> succeeded (snd p))
               (zip [alice, bob, alice_again]
                  (fst (register_all sample_auth Map.empty [alice, bob, alice_again])))) \<le> 1"
proof -
  have ok: "succeeded (fst (register_user sample_auth carol_db alice))"
    by (simp add: register_user_def Let_def carol_db_def alice_def)
  have there: "carol_db ''carol'' = Some carol_record"
    by (simp add: carol_db_def)
  note inst = username_unique [of sample_auth "[alice, bob, alice_again]" "''alice''"
      carol_db alice "''carol''" carol_record]
  from inst ok there show ?thesis
    by (simp add: alice_def bob_def alice_again_def sample_auth_def sample_hash_def)
qed

section \<open>Login\<close>

text \<open>
  C8. \<open>POST /token\<close> replies with status 401 exactly when the username is not in the
  user store or the password does not verify against the stored hash. Otherwise it
  replies with status 200, an access token created for \<open>sub\<close> equal to the username,
  and token type \<open>bearer\<close>. The user store is not changed.
\<close>

theorem login_401_iff:
  "(fst (app au pyd up base db hdr (Login_for_access_token uname pw))
      = Reply 401 (Json (JObj [(''detail'', JStr ''Incorrect username or password'')])))
     = (db uname = None
        \<or> (\<exists>user. db uname = Some user \<and> \<not> verify_password au pw (hashed_password user)))
   \<and> (db uname = Some user \<and> verify_password au pw (hashed_password user) \<longrightarrow>
        app au pyd up base db hdr (Login_for_access_token uname pw)
          = (Reply 200 (Json (JObj [(''access_token'', JStr (create_access_token au [(''sub'', uname)])),
                                    (''token_type'', JStr ''bearer'')])),
             db, []))"
  by (cases "db uname") (auto simp: login_for_access_token_def Let_def status_defs)

theorem login_401_iff_witness:
  "carol_db ''carol'' = Some carol_record
   \<and> verify_password sample_auth ''carol'' (hashed_password carol_record)
   \<and> app sample_auth sample_pydantic upstream_refusing ''http://data/api'' carol_db ()
         (Login_for_access_token ''carol'' ''carol'')
       = (Reply 200 (Json (JObj [(''access_token'', JStr ''tok:carol''),
                                 (''token_type'', JStr ''bearer'')])),
          carol_db, [])
   \<and> fst (app sample_auth sample_pydantic upstream_refusing ''http://data/api'' carol_db ()
             (Login_for_access_token ''carol'' ''guess''))
       = Reply 401 (Json (JObj [(''detail'', JStr ''Incorrect username or password'')]))
   \<and> fst (app sample_auth sample_pydantic upstream_refusing ''http://data/api'' carol_db ()
             (Login_for_access_token ''dave'' ''carol''))
       = Reply 401 (Json (JObj [(''detail'', JStr ''Incorrect username or password'')]))"
proof -
  have there: "carol_db ''carol'' = Some carol_record"
    by (simp add: carol_db_def)
  have absent: "carol_db ''dave'' = None"
    by (simp add: carol_db_def)
  have good: "verify_password sample_auth ''carol'' (hashed_password carol_record)"
    by (simp add: sample_auth_def sample_verify_def sample_hash_def carol_record_def)
  have bad: "\<not> verify_password sample_auth ''guess'' (hashed_password carol_record)"
    by (simp add: sample_auth_def sample_verify_def sample_hash_def carol_record_def)
  have token: "create_access_token sample_auth [(''sub'', ''carol'')] = ''tok:carol''"
    by (simp add: sample_auth_def)
  from login_401_iff [of sample_auth sample_pydantic upstream_refusing "''http://data/api''" carol_db "()"
      "''carol''" "''carol''" carol_record]
    login_401_iff [of sample_auth sample_pydantic upstream_refusing "''http://data/api''" carol_db "()"
      "''carol''" "''guess''" carol_record]
    login_401_iff [of sample_auth sample_pydantic upstream_refusing "''http://data/api''" carol_db "()"
      "''dave''" "''carol''" carol_record]
    there absent good bad token
  show ?thesis by simp
qed

section \<open>Token service\<close>

text \<open>
  C9. For every subject, a token issued for it at time \<open>now\<close> verifies to that
  subject at any time before its expiry \<open>now + ttl\<close>, and fails with Unauthenticated
  at any time after its expiry.
\<close>

theorem token_roundtrip:
  "(t < now + ttl \<longrightarrow> verify sign t (issue sign ttl now subject) = Inr subject)
   \<and> (now + ttl < t \<longrightarrow> verify sign t (issue sign ttl now subject) = Inl Unauthenticated)"
  by (simp add: issue_def)

theorem token_roundtrip_witness:
  "(1500::nat) < 1000 + 1800 \<and> (1000::nat) + 1800 < 3000
   \<and> verify sample_sign 1500 (issue sample_sign 1800 1000 ''carol'') = Inr ''carol''
   \<and> verify sample_sign 3000 (issue sample_sign 1800 1000 ''carol'') = Inl Unauthenticated"
  using token_roundtrip [of 1500 1000 1800 sample_sign "''carol''"]
    token_roundtrip [of 3000 1000 1800 sample_sign "''carol''"]
  by simp

section \<open>Authentication guard\<close>

lemma guard_rejects:
  "hdr = None \<or> (hdr = Some tok \<and> verify sign now tok = Inl Unauthenticated)
     \<or> (hdr = Some tok \<and> verify sign now tok = Inr sub \<and> db sub = None)
   \<Longrightarrow> auth_guard sign now db hdr = Inl unauthenticated"
  by (auto simp: auth_guard_def find_user_def)

lemma guard_accepts:
  "hdr = Some tok \<Longrightarrow> verify sign now tok = Inr sub \<Longrightarrow> db sub = Some user
   \<Longrightarrow> auth_guard sign now db hdr = Inr user"
  by (simp add: auth_guard_def find_user_def)

text \<open>
  C7. With the guard of section 4.4 as \<open>get_current_user\<close>: a request to a protected
  endpoint (product create, update, delete, "who am I") whose bearer token is absent,
  does not verify, or names a user that is not in the store, is answered with status
  401, and the handler has not run: no call went to the data service and the user store
  is as before. With a token that verifies to a stored user, the handler runs with that
  user: \<open>read_users_me\<close> replies with that user, and the product routes reply with
  what their handlers return for that user (create and update through the response
  model \<open>ProductResponse\<close>). Every other endpoint, the product reads among them,
  replies the same whatever the header and whatever \<open>get_current_user\<close> would do.
\<close>

theorem guard_on_protected_routes:
  "get_current_user au = auth_guard sign now \<longrightarrow>
   (spec_protected c
      \<and> (hdr = None \<or> (hdr = Some tok \<and> verify sign now tok = Inl Unauthenticated)
           \<or> (hdr = Some tok \<and> verify sign now tok = Inr sub \<and> db sub = None))
      \<longrightarrow> app au pyd up base db hdr c
            = (Reply 401 (Json (JObj [(''detail'', JStr ''Unauthenticated'')])), db, []))
   \<and> (hdr = Some tok \<and> verify sign now tok = Inr sub \<and> db sub = Some user
      \<longrightarrow> app au pyd up base db hdr Read_users_me
            = (Reply 200 (Json (UserResponse_json user)), db, [])
        \<and> app au pyd up base db hdr (Create_product p)
            = (respond 201 (serialize_response (ProductResponse_model pyd)
                 (snd (create_product up base p user))), db,
               fst (create_product up base p user))
        \<and> app au pyd up base db hdr (Update_product i q)
            = (respond 200 (serialize_response (ProductResponse_model pyd)
                 (snd (update_product up base i q user))), db,
               fst (update_product up base i q user))
        \<and> app au pyd up base db hdr (Delete_product i)
            = (respond 204 (snd (delete_product up base i user)), db,
               fst (delete_product up base i user)))
   \<and> (\<not> spec_protected c
      \<longrightarrow> app au pyd up base db hdr c
            = app (au\<lparr>get_current_user := g\<rparr>) pyd up base db hdr' c)"
proof (intro impI conjI)
  assume au: "get_current_user au = auth_guard sign now"
  show "app au pyd up base db hdr c
            = (Reply 401 (Json (JObj [(''detail'', JStr ''Unauthenticated'')])), db, [])"
    if "spec_protected c
      \<and> (hdr = None \<or> (hdr = Some tok \<and> verify sign now tok = Inl Unauthenticated)
           \<or> (hdr = Some tok \<and> verify sign now tok = Inr sub \<and> db sub = None))"
  proof -
    have "auth_guard sign now db hdr = Inl unauthenticated"
      using that guard_rejects [of hdr tok sign now sub db] by blast
    with that au show ?thesis
      by (cases c) (simp_all add: Depends_get_current_user_def unauthenticated_def status_defs)
  qed
  show "app au pyd up base db hdr c = app (au\<lparr>get_current_user := g\<rparr>) pyd up base db hdr' c"
    if "\<not> spec_protected c"
    using that
    by (cases c) (simp_all add: register_user_def login_for_access_token_def Let_def)
next
  assume au: "get_current_user au = auth_guard sign now"
    and ok: "hdr = Some tok \<and> verify sign now tok = Inr sub \<and> db sub = Some user"
  have g: "get_current_user au db hdr = Inr user"
    using au ok guard_accepts [of hdr tok sign now sub db user] by simp
  show "app au pyd up base db hdr Read_users_me = (Reply 200 (Json (UserResponse_json user)), db, [])"
    by (simp add: Depends_get_current_user_def g read_users_me_def status_defs)
  show "app au pyd up base db hdr (Create_product p)
            = (respond 201 (serialize_response (ProductResponse_model pyd)
                 (snd (create_product up base p user))), db,
               fst (create_product up base p user))"
    by (simp add: Depends_get_current_user_def g status_defs split: prod.splits)
  show "app au pyd up base db hdr (Update_product i q)
            = (respond 200 (serialize_response (ProductResponse_model pyd)
                 (snd (update_product up base i q user))), db,
               fst (update_product up base i q user))"
    by (simp add: Depends_get_current_user_def g status_defs split: prod.splits)
  show "app au pyd up base db hdr (Delete_product i)
            = (respond 204 (snd (delete_product up base i user)), db,
               fst (delete_product up base i user))"
    by (simp add: Depends_get_current_user_def g status_defs split: prod.splits)
qed

theorem guard_on_protected_routes_witness:
  "get_current_user (guarded_auth 1500) = auth_guard sample_sign 1500
   \<and> spec_protected (Delete_product 7) \<and> \<not> spec_protected (Get_product 7)
   \<and> verify sample_sign 1500 (Malformed ''junk'') = Inl Unauthenticated
   \<and> verify sample_sign 1500 (issue sample_sign 1800 1000 ''carol'') = Inr ''carol''
   \<and> carol_db ''carol'' = Some carol_record
   \<and> app (guarded_auth 1500) sample_pydantic upstream_ok ''http://data/api'' carol_db None
         (Delete_product 7)
       = (Reply 401 (Json (JObj [(''detail'', JStr ''Unauthenticated'')])), carol_db, [])
   \<and> app (guarded_auth 1500) sample_pydantic upstream_ok ''http://data/api'' carol_db
         (Some (Malformed ''junk'')) (Delete_product 7)
       = (Reply 401 (Json (JObj [(''detail'', JStr ''Unauthenticated'')])), carol_db, [])
   \<and> app (guarded_auth 1500) sample_pydantic upstream_ok ''http://data/api'' carol_db
         (Some (issue sample_sign 1800 1000 ''carol'')) Read_users_me
       = (Reply 200 (Json (JObj [(''username'', JStr ''carol''),
                                 (''email'', JStr ''carol@example.com''),
                                 (''disabled'', JBool False)])), carol_db, [])
   \<and> app (guarded_auth 1500) sample_pydantic upstream_ok ''http://data/api'' carol_db
         (Some (issue sample_sign 1800 1000 ''carol'')) (Delete_product 7)
       = (Reply 204 Empty, carol_db,
          [Request DELETE [Lit ''http://data/api'', Lit ''/products/'', Fmt_int 7] None])
   \<and> app (guarded_auth 1500) sample_pydantic upstream_ok ''http://data/api'' carol_db None
         (Get_product 7)
       = (Reply 200 (Json (JObj [(''name'', JStr ''Lamp''), (''description'', JStr ''Desk lamp''),
                                 (''price'', JFloat (Finite 20)), (''stock_quantity'', JInt 3),
                                 (''category'', JStr ''home''), (''id'', JInt 7)])), carol_db,
          [Request GET [Lit ''http://data/api'', Lit ''/products/'', Fmt_int 7] None])"
proof -
  have au: "get_current_user (guarded_auth 1500) = auth_guard sample_sign 1500"
    by (simp add: guarded_auth_def)
  have junk: "verify sample_sign 1500 (Malformed ''junk'') = Inl Unauthenticated"
    by simp
  have good: "verify sample_sign 1500 (issue sample_sign 1800 1000 ''carol'') = Inr ''carol''"
    by (simp add: issue_def)
  have there: "carol_db ''carol'' = Some carol_record"
    by (simp add: carol_db_def)
  have del: "delete_product upstream_ok ''http://data/api'' 7 carol_record
      = ([Request DELETE [Lit ''http://data/api'', Lit ''/products/'', Fmt_int 7] None], Inr JNull)"
    by (simp add: delete_product_call Let_def upstream_ok_def raise_for_status_def)
  have get: "app (guarded_auth 1500) sample_pydantic upstream_ok ''http://data/api'' carol_db None
         (Get_product 7)
       = (Reply 200 (Json (JObj [(''name'', JStr ''Lamp''), (''description'', JStr ''Desk lamp''),
                                 (''price'', JFloat (Finite 20)), (''stock_quantity'', JInt 3),
                                 (''category'', JStr ''home''), (''id'', JInt 7)])), carol_db,
          [Request GET [Lit ''http://data/api'', Lit ''/products/'', Fmt_int 7] None])"
    by (simp add: get_product_call Let_def upstream_ok_def checked_json_cases status_defs
        stored_lamp_def sample_pydantic_def required_def)
  from guard_on_protected_routes [of "guarded_auth 1500" sample_sign 1500 "Delete_product 7"
      None "Malformed ''junk''" "''carol''" carol_db sample_pydantic upstream_ok
      "''http://data/api''"]
    guard_on_protected_routes [of "guarded_auth 1500" sample_sign 1500 "Delete_product 7"
      "Some (Malformed ''junk'')" "Malformed ''junk''" "''carol''" carol_db sample_pydantic
      upstream_ok "''http://data/api''"]
    guard_on_protected_routes [of "guarded_auth 1500" sample_sign 1500 "Get_product 7"
      "Some (issue sample_sign 1800 1000 ''carol'')" "issue sample_sign 1800 1000 ''carol''"
      "''carol''" carol_db sample_pydantic upstream_ok "''http://data/api''" carol_record
      sample_product 7
      price_only "get_current_user (guarded_auth 1500)" None]
    au junk good there del get
  show ?thesis
    by (simp add: UserResponse_json_def carol_record_def status_defs)
qed

end
